theory Spec2Isabelle
  imports Main
begin

section \<open>Strings as the services use them\<close>

text \<open>
  The services work on JavaScript strings. Domains, URLs and provider messages are
  modelled as \<^typ>\<open>string\<close> over ASCII: \<open>toLowerCase\<close> maps \<open>A..Z\<close> to \<open>a..z\<close>,
  \<open>trim\<close> removes the ASCII white space characters, and the regular expression class
  \<open>\\d\<close> is \<open>0..9\<close>. A case-insensitive regular expression without the \<open>u\<close> flag never
  identifies a non-ASCII character with an ASCII letter, so the prefix patterns below
  match exactly the ASCII spellings.
\<close>

definition isDigit :: "char \<Rightarrow> bool" where
  "isDigit c = (let n = (of_char c :: int) in 48 \<le> n \<and> n \<le> 57)"

definition isSpace :: "char \<Rightarrow> bool" where
  "isSpace c = (let n = (of_char c :: int) in n = 32 \<or> (9 \<le> n \<and> n \<le> 13))"

definition lowerChar :: "char \<Rightarrow> char" where
  "lowerChar c = (let n = (of_char c :: int) in if 65 \<le> n \<and> n \<le> 90 then char_of (n + 32) else c)"

definition toLowerCase :: "string \<Rightarrow> string" where
  "toLowerCase s = map lowerChar s"

definition upperChar :: "char \<Rightarrow> char" where
  "upperChar c = (let n = (of_char c :: int) in if 97 \<le> n \<and> n \<le> 122 then char_of (n - 32) else c)"

definition toUpperCase :: "string \<Rightarrow> string" where
  "toUpperCase s = map upperChar s"

definition trim :: "string \<Rightarrow> string" where
  "trim s = rev (dropWhile isSpace (rev (dropWhile isSpace s)))"

definition startsWith :: "string \<Rightarrow> string \<Rightarrow> bool" where
  "startsWith s p = (take (length p) s = p)"

definition endsWith :: "string \<Rightarrow> string \<Rightarrow> bool" where
  "endsWith s p = (length p \<le> length s \<and> drop (length s - length p) s = p)"

text \<open>\<open>s.includes(p)\<close>: \<open>p\<close> occurs in \<open>s\<close> as a contiguous substring.\<close>

fun includesStr :: "string \<Rightarrow> string \<Rightarrow> bool" where
  "includesStr [] p = (p = [])"
| "includesStr (c # cs) p = (startsWith (c # cs) p \<or> includesStr cs p)"

text \<open>\<open>s.split(c)\<close> for a one-character separator; the result is never empty.\<close>

fun splitOn :: "char \<Rightarrow> string \<Rightarrow> string list" where
  "splitOn sep [] = [[]]"
| "splitOn sep (c # cs) =
     (if c = sep then [] # splitOn sep cs
      else (case splitOn sep cs of
              [] \<Rightarrow> [[c]]
            | p # ps \<Rightarrow> (c # p) # ps))"

text \<open>\<open>parts.join(sep)\<close>.\<close>

fun join :: "string \<Rightarrow> string list \<Rightarrow> string" where
  "join sep [] = []"
| "join sep [p] = p"
| "join sep (p # q # ps) = p @ sep @ join sep (q # ps)"

text \<open>
  \<open>s.replace(/^(www\\d*|m|mobile)\\./i, '')\<close>: the alternatives are tried in order at
  the start of the string; the digits after \<open>www\<close> are taken greedily and must be
  followed by a dot.
\<close>

definition stripHostPrefix :: "string \<Rightarrow> string" where
  "stripHostPrefix s =
     (let l = toLowerCase s in
      if startsWith l ''www'' \<and>
         (case dropWhile isDigit (drop 3 s) of [] \<Rightarrow> False | c # _ \<Rightarrow> c = CHR ''.'')
      then tl (dropWhile isDigit (drop 3 s))
      else if startsWith l ''m.'' then drop 2 s
      else if startsWith l ''mobile.'' then drop 7 s
      else s)"

text \<open>\<open>s.replace(/^[a-z]+:\\/\\//i, '')\<close>: a non-empty run of letters followed by \<open>://\<close>.\<close>

definition isLetter :: "char \<Rightarrow> bool" where
  "isLetter c = (let n = (of_char (lowerChar c) :: int) in 97 \<le> n \<and> n \<le> 122)"

definition stripProtocol :: "string \<Rightarrow> string" where
  "stripProtocol s =
     (let letters = takeWhile isLetter s; rest = dropWhile isLetter s in
      if letters \<noteq> [] \<and> startsWith rest ''://'' then drop 3 rest else s)"

text \<open>\<open>s.replace(/\\.+$/, '')\<close>: all trailing dots.\<close>

definition stripTrailingDots :: "string \<Rightarrow> string" where
  "stripTrailingDots s = rev (dropWhile (\<lambda>c. c = CHR ''.'') (rev s))"

section \<open>Domain extraction and matching\<close>

text \<open>
  \<open>extractDomain\<close> of \<open>serpApiPoolManager.ts\<close>. An empty argument gives the empty
  string; the operations of the main path do not throw on strings, so the fallback of
  the \<open>catch\<close> block is never reached.
\<close>

definition extractDomain :: "string \<Rightarrow> string" where
  "extractDomain url =
     (if url = [] then []
      else
        let domain = stripProtocol url;
            domain = stripHostPrefix domain;
            domain = hd (splitOn CHR '':'' domain);
            domain = hd (splitOn CHR ''#'' (hd (splitOn CHR ''?'' (hd (splitOn CHR ''/'' domain)))));
            domain = trim (toLowerCase domain)
        in stripTrailingDots domain)"

datatype matchType = exact | normalized | subdomain | main_domain | none

record IDomainMatchResult =
  matched :: bool
  matchType :: matchType
  domain1 :: string
  domain2 :: string
  normalizedDomain1 :: "string option"
  normalizedDomain2 :: "string option"
  confidence :: int

text \<open>The local helper \<open>normalize\<close> of \<open>domainsMatch\<close>.\<close>

definition normalize :: "string \<Rightarrow> string" where
  "normalize d =
     (let a = stripHostPrefix d;
          b = (if endsWith a ''/'' then butlast a else a)
      in trim (toLowerCase b))"

text \<open>
  The local helper \<open>singularize\<close>: three replacements in a row, each anchored at the
  end of the whole string.
\<close>

definition replaceSuffix :: "string \<Rightarrow> string \<Rightarrow> string \<Rightarrow> string" where
  "replaceSuffix suf new s =
     (if endsWith s suf then take (length s - length suf) s @ new else s)"

definition singularize :: "string \<Rightarrow> string" where
  "singularize d = replaceSuffix ''s'' '''' (replaceSuffix ''es'' '''' (replaceSuffix ''ies'' ''y'' d))"

text \<open>The local helper \<open>getMainDomain\<close>: the last two labels, joined by a dot.\<close>

definition getMainDomain :: "string list \<Rightarrow> string" where
  "getMainDomain parts =
     (if length parts \<ge> 2 then join ''.'' (drop (length parts - 2) parts)
      else join ''.'' parts)"

definition domainsMatch :: "string \<Rightarrow> string \<Rightarrow> IDomainMatchResult" where
  "domainsMatch dom1 dom2 =
     (if dom1 = [] \<or> dom2 = [] then
        \<lparr> matched = False, matchType = none, domain1 = dom1, domain2 = dom2,
          normalizedDomain1 = None, normalizedDomain2 = None, confidence = 0 \<rparr>
      else
        let d1 = trim (toLowerCase dom1);
            d2 = trim (toLowerCase dom2)
        in
        if d1 = d2 then
          \<lparr> matched = True, matchType = exact, domain1 = d1, domain2 = d2,
            normalizedDomain1 = None, normalizedDomain2 = None, confidence = 100 \<rparr>
        else
          let n1 = normalize d1;
              n2 = normalize d2
          in
          if n1 = n2 then
            \<lparr> matched = True, matchType = normalized, domain1 = d1, domain2 = d2,
              normalizedDomain1 = Some n1, normalizedDomain2 = Some n2, confidence = 95 \<rparr>
          else
            let s1 = singularize n1;
                s2 = singularize n2
            in
            if s1 = s2 \<and> (s1 \<noteq> n1 \<or> s1 \<noteq> n2) then
              \<lparr> matched = True, matchType = normalized, domain1 = d1, domain2 = d2,
                normalizedDomain1 = Some n1, normalizedDomain2 = Some n2, confidence = 93 \<rparr>
            else
              let parts1 = splitOn CHR ''.'' n1;
                  parts2 = splitOn CHR ''.'' n2;
                  main1 = getMainDomain parts1;
                  main2 = getMainDomain parts2
              in
              if main1 = main2 \<and> length main1 > 0 then
                let isSubdomain =
                      (endsWith n1 (''.'' @ n2) \<or> endsWith n2 (''.'' @ n1) \<or>
                       includesStr n1 (''.'' @ n2) \<or> includesStr n2 (''.'' @ n1))
                in
                \<lparr> matched = True,
                  matchType = (if isSubdomain then subdomain else main_domain),
                  domain1 = d1, domain2 = d2,
                  normalizedDomain1 = Some n1, normalizedDomain2 = Some n2,
                  confidence = (if isSubdomain then 85 else 90) \<rparr>
              else if includesStr n1 n2 \<or> includesStr n2 n1 then
                \<lparr> matched = True, matchType = subdomain, domain1 = d1, domain2 = d2,
                  normalizedDomain1 = Some n1, normalizedDomain2 = Some n2, confidence = 75 \<rparr>
              else
                \<lparr> matched = False, matchType = none, domain1 = d1, domain2 = d2,
                  normalizedDomain1 = Some n1, normalizedDomain2 = Some n2, confidence = 0 \<rparr>)"

section \<open>Provider responses and the canonical ranking record\<close>

text \<open>
  The types of \<open>api.types.ts\<close> that the parsers read and write. A JavaScript number
  that the code only compares, adds or counts is an \<^typ>\<open>int\<close>; an optional field is an
  \<^typ>\<open>'a option\<close>. Arrays of untyped provider items (\<open>any[]\<close>) of which the code only
  reads \<open>length\<close> are given by that length. Time stamps, the request metadata and the
  raw payload echo are left out: no decision of the parsers reads them.
\<close>

datatype PositionSource = serpapi_position | array_index_fallback | verified | unknown

datatype featureType =
    ft_ads | ft_featured_snippet | ft_people_also_ask | ft_local_pack | ft_shopping
  | ft_images | ft_videos | ft_knowledge_panel | ft_related_searches | ft_other

record ISerpFeature =
  f_type :: featureType
  f_position :: "int option"
  f_count :: "int option"

datatype validationMethod = serpapi_trusted | cross_verified | fallback_used | unverified

text \<open>The three warning messages the parser can push; the numbers are the interpolated values.\<close>

datatype warning =
    LargeDiscrepancy int int
  | PositionFieldMissing int int int
  | SignificantDiscrepancy int int

record IPositionValidation =
  originalPosition :: "int option"
  verifiedPosition :: "int option"
  positionSource :: PositionSource
  pv_confidence :: int
  discrepancy :: "int option"
  serpFeatures :: "ISerpFeature list"
  organicResultsCount :: int
  totalResultsInSerp :: int
  validationMethod :: validationMethod
  warnings :: "warning list"
  arrayIndexPosition :: "int option"

record ISerpApiOrganicResult =
  o_position :: "int option"
  o_title :: "string option"
  link :: "string option"
  snippet :: "string option"
  rich_snippet_description :: "string option"
  o_type :: "string option"

text \<open>\<open>local_results\<close> is untyped: absent (or falsy), an array, or some other truthy value.\<close>

datatype local_results = LocalAbsent | LocalArray nat | LocalObject

text \<open>
  A JavaScript number, as far as the services read integers out of text. A double holds
  every integer of magnitude up to \<open>2^53\<close> exactly: \<open>Exact n\<close> is such an integer.
  \<open>NaN\<close> is not-a-number. \<open>Rounded n\<close> is the double that the conversion of an integer
  \<open>n\<close> of larger magnitude gives; the model names it by \<open>n\<close> and does not compute the
  rounding.
\<close>

datatype jsNumber = Exact int | NaN | Rounded int

definition toNumber :: "int \<Rightarrow> jsNumber" where
  "toNumber n = (if \<bar>n\<bar> \<le> 9007199254740992 then Exact n else Rounded n)"

text \<open>\<open>search_information.total_results\<close>: a number, a string, or anything else (missing).\<close>

datatype total_results = TotalNumber jsNumber | TotalString string | TotalMissing

record ISerpApiResponse =
  organic_results :: "ISerpApiOrganicResult list option"
  ads :: "nat option"
  inline_images :: "nat option"
  inline_videos :: "nat option"
  related_searches :: "nat option"
  answer_box :: bool
  knowledge_graph :: bool
  local_results :: local_results
  top_stories :: bool
  search_information_total_results :: total_results

record IGoogleCustomSearchItem =
  g_title :: "string option"
  g_link :: "string option"
  g_snippet :: "string option"

record IGoogleCustomSearchResponse =
  items :: "IGoogleCustomSearchItem list option"
  searchInformation_totalResults :: "string option"

datatype SearchApiProvider = serpapi | google_custom_search

datatype device = desktop | mobile | tablet

record ISearchOptions =
  domain :: string
  country :: string
  language :: "string option"
  city :: "string option"
  state :: "string option"
  postalCode :: "string option"
  device :: "device option"
  apiKey :: "string option"
  apiProvider :: "SearchApiProvider option"
  searchEngine :: "string option"
  maxResults :: "int option"
  verificationMode :: "bool option"
  customParams :: "(string \<times> string) list option"

record competitor =
  c_position :: int
  c_url :: string
  c_domain :: string
  c_title :: string

datatype reliability = high | medium | low

datatype complexity = simple | moderate | complex

record resultQuality =
  positionReliability :: reliability
  serpComplexity :: complexity

text \<open>The canonical record; \<open>totalResults\<close> is a JavaScript number and can be \<open>NaN\<close>.\<close>

record ISearchResult =
  keyword :: string
  r_domain :: string
  position :: "int option"
  url :: string
  title :: string
  description :: string
  r_country :: string
  r_city :: string
  r_state :: string
  r_postalCode :: string
  totalResults :: jsNumber
  searchedResults :: int
  found :: bool
  positionValidation :: IPositionValidation
  competitorUrls :: "competitor list"
  resultQuality :: resultQuality

text \<open>JavaScript truthiness of an optional number and of an optional string.\<close>

definition truthyNum :: "int option \<Rightarrow> bool" where
  "truthyNum p = (case p of None \<Rightarrow> False | Some n \<Rightarrow> n \<noteq> 0)"

definition truthyStr :: "string option \<Rightarrow> bool" where
  "truthyStr s = (case s of None \<Rightarrow> False | Some t \<Rightarrow> t \<noteq> [])"

text \<open>\<open>x || ''\<close> on an optional string.\<close>

definition orEmpty :: "string option \<Rightarrow> string" where
  "orEmpty s = (case s of None \<Rightarrow> [] | Some t \<Rightarrow> t)"

section \<open>Reading numbers out of strings\<close>

text \<open>
  \<open>parseInt(s)\<close> without a radix: leading white space is skipped, an optional sign is
  read, a \<open>0x\<close> prefix selects base sixteen, and the longest prefix of digits is the
  mathematical value, which is returned as a JavaScript number (\<open>toNumber\<close>): exactly
  when its magnitude is at most \<open>2^53\<close>, rounded to a double beyond. With no digit the
  result is \<open>NaN\<close>.
\<close>

definition digitVal :: "char \<Rightarrow> int" where
  "digitVal c = (let n = (of_char (lowerChar c) :: int) in if n \<le> 57 then n - 48 else n - 87)"

definition isHexDigit :: "char \<Rightarrow> bool" where
  "isHexDigit c = (let n = (of_char (lowerChar c) :: int) in isDigit c \<or> (97 \<le> n \<and> n \<le> 102))"

definition digitsValue :: "int \<Rightarrow> string \<Rightarrow> int" where
  "digitsValue base ds = foldl (\<lambda>acc c. acc * base + digitVal c) 0 ds"

definition parseInt :: "string \<Rightarrow> jsNumber" where
  "parseInt str =
     (let s = dropWhile isSpace str;
          neg = startsWith s ''-'';
          s = (if startsWith s ''-'' \<or> startsWith s ''+'' then tl s else s);
          hex = startsWith (toLowerCase s) ''0x'';
          s = (if hex then drop 2 s else s);
          z = (if hex then takeWhile isHexDigit s else takeWhile isDigit s)
      in if z = [] then NaN
         else let v = digitsValue (if hex then 16 else 10) z
              in toNumber (if neg then - v else v))"

text \<open>
  \<open>parseTotalResults\<close>: a number is returned as it is; in a string every character
  that is not a digit is deleted (\<open>replace(/[^\\d]/g, '')\<close>) and what remains is parsed,
  \<open>'0'\<close> standing in for an empty remainder and \<open>0\<close> for the falsy results \<open>NaN\<close> and
  \<open>0\<close> (\<open>parseInt(...) || 0\<close>).
\<close>

definition parseTotalResults :: "total_results \<Rightarrow> jsNumber" where
  "parseTotalResults totalRes =
     (case totalRes of
        TotalNumber x \<Rightarrow> x
      | TotalString s \<Rightarrow>
          (let digits = filter isDigit s in
           case parseInt (if digits = [] then ''0'' else digits) of
             NaN \<Rightarrow> Exact 0
           | Exact n \<Rightarrow> (if n = 0 then Exact 0 else Exact n)
           | Rounded n \<Rightarrow> Rounded n)
      | TotalMissing \<Rightarrow> Exact 0)"

section \<open>SERP features, offsets and confidence\<close>

definition isPeopleAlsoAsk :: "ISerpApiOrganicResult \<Rightarrow> bool" where
  "isPeopleAlsoAsk r =
     ((case o_title r of None \<Rightarrow> False
       | Some t \<Rightarrow> includesStr (toLowerCase t) ''people also ask'')
      \<or> o_type r = Some ''people_also_ask'')"

definition organicOf :: "ISerpApiResponse \<Rightarrow> ISerpApiOrganicResult list" where
  "organicOf data = (case organic_results data of None \<Rightarrow> [] | Some rs \<Rightarrow> rs)"

definition countedFeature :: "featureType \<Rightarrow> nat option \<Rightarrow> ISerpFeature list" where
  "countedFeature t arr =
     (case arr of
        None \<Rightarrow> []
      | Some n \<Rightarrow> if n > 0 then [\<lparr> f_type = t, f_position = None, f_count = Some (int n) \<rparr>] else [])"

definition detectSerpFeatures :: "ISerpApiResponse \<Rightarrow> ISerpFeature list" where
  "detectSerpFeatures data =
     (case ads data of
        None \<Rightarrow> []
      | Some n \<Rightarrow> if n > 0 then [\<lparr> f_type = ft_ads, f_position = Some 1, f_count = Some (int n) \<rparr>] else [])
     @ (if answer_box data
        then [\<lparr> f_type = ft_featured_snippet, f_position = Some 1, f_count = None \<rparr>] else [])
     @ (if knowledge_graph data
        then [\<lparr> f_type = ft_knowledge_panel, f_position = None, f_count = None \<rparr>] else [])
     @ (case local_results data of
          LocalAbsent \<Rightarrow> []
        | LocalArray n \<Rightarrow> [\<lparr> f_type = ft_local_pack, f_position = None, f_count = Some (int n) \<rparr>]
        | LocalObject \<Rightarrow> [\<lparr> f_type = ft_local_pack, f_position = None, f_count = Some 1 \<rparr>])
     @ countedFeature ft_images (inline_images data)
     @ countedFeature ft_videos (inline_videos data)
     @ countedFeature ft_related_searches (related_searches data)
     @ (if top_stories data
        then [\<lparr> f_type = ft_other, f_position = None, f_count = Some 1 \<rparr>] else [])
     @ (let paaCount = length (filter isPeopleAlsoAsk (organicOf data)) in
        if paaCount > 0
        then [\<lparr> f_type = ft_people_also_ask, f_position = None, f_count = Some (int paaCount) \<rparr>]
        else [])"

definition calculateSerpFeatureOffset :: "ISerpApiResponse \<Rightarrow> nat \<Rightarrow> int" where
  "calculateSerpFeatureOffset data arrayIndex =
     (case ads data of None \<Rightarrow> 0 | Some n \<Rightarrow> if n > 0 then int n else 0)
     + (if answer_box data then 1 else 0)
     + (case local_results data of
          LocalAbsent \<Rightarrow> 0 | LocalArray n \<Rightarrow> int n | LocalObject \<Rightarrow> 3)
     + int (length (filter isPeopleAlsoAsk (take arrayIndex (organicOf data))))"

definition calculateTotalSerpResults :: "ISerpApiResponse \<Rightarrow> int" where
  "calculateTotalSerpResults data =
     int (length (organicOf data))
     + (case ads data of None \<Rightarrow> 0 | Some n \<Rightarrow> int n)
     + (case inline_images data of None \<Rightarrow> 0 | Some n \<Rightarrow> int n)
     + (case inline_videos data of None \<Rightarrow> 0 | Some n \<Rightarrow> int n)
     + (if answer_box data then 1 else 0)
     + (if knowledge_graph data then 1 else 0)
     + (case local_results data of
          LocalAbsent \<Rightarrow> 0 | LocalArray n \<Rightarrow> int n | LocalObject \<Rightarrow> 1)"

definition calculatePositionConfidence ::
  "PositionSource \<Rightarrow> bool \<Rightarrow> ISerpFeature list \<Rightarrow> int \<Rightarrow> warning list \<Rightarrow> int" where
  "calculatePositionConfidence posSource fnd features organicCount warns =
     (if \<not> fnd then 0
      else
        let c = 100;
            c = (if posSource = array_index_fallback then c - 30
                 else if posSource = unknown then c - 50 else c);
            complexityPenalty = min (int (length features) * 5) 20;
            c = c - complexityPenalty;
            c = (if organicCount < 10 then c - 10 else c);
            c = c - min (int (length warns) * 5) 15
        in max 0 c)"

definition verifyPosition ::
  "int option \<Rightarrow> int option \<Rightarrow> ISerpFeature list \<Rightarrow> int \<Rightarrow> int option \<times> int option \<times> warning option" where
  "verifyPosition pos arrayIndexPos features organicCount =
     (if \<not> truthyNum pos \<or> \<not> truthyNum arrayIndexPos then (pos, None, None)
      else
        let disc = \<bar>the pos - the arrayIndexPos\<bar>;
            expectedDiscrepancy =
              foldl (\<lambda>sum feature.
                       if f_type feature = ft_ads
                       then sum + (if truthyNum (f_count feature) then the (f_count feature) else 1)
                       else if f_type feature = ft_featured_snippet then sum + 1
                       else if f_type feature = ft_local_pack then sum + 1
                       else sum) 0 features
        in if disc \<le> expectedDiscrepancy + 2 then (pos, Some disc, None)
           else (pos, Some disc, Some (SignificantDiscrepancy disc expectedDiscrepancy)))"

section \<open>The native-SERP parser\<close>

record bestMatch =
  bm_result :: ISerpApiOrganicResult
  bm_index :: nat
  bm_domainMatch :: IDomainMatchResult

text \<open>\<open>result.position && result.position > 0\<close>.\<close>

definition validPosition :: "int option \<Rightarrow> bool" where
  "validPosition p = (truthyNum p \<and> (case p of None \<Rightarrow> False | Some n \<Rightarrow> n > 0))"

text \<open>The guard under which the loop replaces \<open>bestMatch\<close> by the current result.\<close>

definition replacesBest :: "bestMatch option \<Rightarrow> ISerpApiOrganicResult \<Rightarrow> IDomainMatchResult \<Rightarrow> bool" where
  "replacesBest best result dm =
     (case best of
        None \<Rightarrow> True
      | Some b \<Rightarrow>
          confidence dm > confidence (bm_domainMatch b) \<or>
          (confidence dm = confidence (bm_domainMatch b) \<and>
           truthyNum (o_position result) \<and> \<not> truthyNum (o_position (bm_result b))))"

text \<open>
  The search loop of \<open>parseSearchResults\<close>, from index \<open>i\<close> on. It returns the best
  match and the number of results the loop has visited: the \<open>break\<close> leaves at \<open>i + 1\<close>,
  a loop that runs to the end leaves at the length of the list.
\<close>

fun searchLoop ::
  "string \<Rightarrow> ISerpApiOrganicResult list \<Rightarrow> nat \<Rightarrow> bestMatch option \<Rightarrow> bestMatch option \<times> nat" where
  "searchLoop cleanDomain [] i best = (best, i)"
| "searchLoop cleanDomain (result # rest) i best =
     (if \<not> truthyStr (link result) then searchLoop cleanDomain rest (i + 1) best
      else
        let resultDomain = extractDomain (orEmpty (link result));
            dm = domainsMatch resultDomain cleanDomain
        in
        if matched dm then
          let best' = (if replacesBest best result dm
                       then Some \<lparr> bm_result = result, bm_index = i, bm_domainMatch = dm \<rparr>
                       else best)
          in
          if matchType dm = exact \<and> validPosition (o_position result) then (best', i + 1)
          else searchLoop cleanDomain rest (i + 1) best'
        else searchLoop cleanDomain rest (i + 1) best)"

definition competitorsOf :: "ISerpApiOrganicResult list \<Rightarrow> competitor list" where
  "competitorsOf organicResults =
     map (\<lambda>r. \<lparr> c_position = the (o_position r), c_url = orEmpty (link r),
                c_domain = extractDomain (orEmpty (link r)), c_title = orEmpty (o_title r) \<rparr>)
       (filter (\<lambda>r. truthyStr (link r) \<and> truthyNum (o_position r)) (take 10 organicResults))"

definition reliabilityOf :: "int \<Rightarrow> reliability" where
  "reliabilityOf c = (if c \<ge> 90 then high else if c \<ge> 70 then medium else low)"

definition parseSearchResults :: "string \<Rightarrow> ISerpApiResponse \<Rightarrow> ISearchOptions \<Rightarrow> ISearchResult" where
  "parseSearchResults kw data options =
     (let organicResults = organicOf data;
          cleanDomain = extractDomain (domain options);
          features = detectSerpFeatures data;
          best = fst (searchLoop cleanDomain organicResults 0 None);
          foundMatch = (best \<noteq> None);
          arrayIndexPos = (case best of None \<Rightarrow> None | Some b \<Rightarrow> Some (int (bm_index b) + 1));
          fromProvider = (case best of None \<Rightarrow> False
                          | Some b \<Rightarrow> validPosition (o_position (bm_result b)));
          pos = (case best of
                   None \<Rightarrow> None
                 | Some b \<Rightarrow>
                     if validPosition (o_position (bm_result b)) then o_position (bm_result b)
                     else Some (int (bm_index b) + 1 + calculateSerpFeatureOffset data (bm_index b)));
          posSource = (case best of
                         None \<Rightarrow> unknown
                       | Some b \<Rightarrow> if fromProvider then serpapi_position else array_index_fallback);
          warns = (case best of
                     None \<Rightarrow> []
                   | Some b \<Rightarrow>
                       if fromProvider then
                         (if \<bar>the pos - (int (bm_index b) + 1)\<bar> > 3
                          then [LargeDiscrepancy (the pos) (int (bm_index b) + 1)] else [])
                       else [PositionFieldMissing (int (bm_index b) + 1)
                               (calculateSerpFeatureOffset data (bm_index b)) (the pos)]);
          conf = calculatePositionConfidence posSource foundMatch features
                   (int (length organicResults)) warns;
          verify = (verificationMode options = Some True \<and> foundMatch \<and> truthyNum pos);
          checked = verifyPosition pos arrayIndexPos features (int (length organicResults));
          validation =
            \<lparr> originalPosition = pos,
              verifiedPosition = (if verify then fst checked else None),
              positionSource = posSource,
              pv_confidence = conf,
              discrepancy = (if verify then fst (snd checked) else None),
              serpFeatures = features,
              organicResultsCount = int (length organicResults),
              totalResultsInSerp = calculateTotalSerpResults data,
              validationMethod = (if posSource = serpapi_position then serpapi_trusted
                                  else if posSource = array_index_fallback then fallback_used
                                  else unverified),
              warnings = (if verify
                          then (case snd (snd checked) of None \<Rightarrow> warns | Some w \<Rightarrow> warns @ [w])
                          else warns),
              arrayIndexPosition = arrayIndexPos \<rparr>
      in
      \<lparr> keyword = trim kw,
        r_domain = domain options,
        position = pos,
        url = (case best of None \<Rightarrow> [] | Some b \<Rightarrow> orEmpty (link (bm_result b))),
        title = (case best of None \<Rightarrow> [] | Some b \<Rightarrow> orEmpty (o_title (bm_result b))),
        description = (case best of None \<Rightarrow> []
                       | Some b \<Rightarrow> if truthyStr (snippet (bm_result b))
                                   then orEmpty (snippet (bm_result b))
                                   else orEmpty (rich_snippet_description (bm_result b))),
        r_country = toUpperCase (country options),
        r_city = (case city options of None \<Rightarrow> [] | Some c \<Rightarrow> trim c),
        r_state = (case state options of None \<Rightarrow> [] | Some c \<Rightarrow> trim c),
        r_postalCode = (case postalCode options of None \<Rightarrow> [] | Some c \<Rightarrow> trim c),
        totalResults = parseTotalResults (search_information_total_results data),
        searchedResults = int (length organicResults),
        found = foundMatch,
        positionValidation = validation,
        competitorUrls = competitorsOf organicResults,
        resultQuality =
          \<lparr> positionReliability = reliabilityOf conf,
            serpComplexity = (if length features > 3 then complex
                              else if length features > 1 then moderate else simple) \<rparr> \<rparr>)"

section \<open>The custom-search parser\<close>

record googleMatch =
  gm_item :: IGoogleCustomSearchItem
  gm_index :: nat
  gm_domainMatch :: IDomainMatchResult

text \<open>The loop of \<open>parseGoogleCustomSearchResults\<close>: the first item that matches is taken.\<close>

fun firstMatch :: "string \<Rightarrow> IGoogleCustomSearchItem list \<Rightarrow> nat \<Rightarrow> googleMatch option" where
  "firstMatch cleanDomain [] i = None"
| "firstMatch cleanDomain (item # rest) i =
     (if truthyStr (g_link item) then
        let resultDomain = extractDomain (orEmpty (g_link item));
            dm = domainsMatch resultDomain cleanDomain
        in if matched dm then Some \<lparr> gm_item = item, gm_index = i, gm_domainMatch = dm \<rparr>
           else firstMatch cleanDomain rest (i + 1)
      else firstMatch cleanDomain rest (i + 1))"

fun indexed :: "nat \<Rightarrow> 'a list \<Rightarrow> (nat \<times> 'a) list" where
  "indexed i [] = []"
| "indexed i (x # xs) = (i, x) # indexed (i + 1) xs"

definition parseGoogleCustomSearchResults ::
  "string \<Rightarrow> IGoogleCustomSearchResponse \<Rightarrow> ISearchOptions \<Rightarrow> ISearchResult" where
  "parseGoogleCustomSearchResults kw data options =
     (let its = (case items data of None \<Rightarrow> [] | Some xs \<Rightarrow> xs);
          cleanDomain = extractDomain (domain options);
          best = firstMatch cleanDomain its 0;
          foundMatch = (best \<noteq> None);
          pos = (case best of None \<Rightarrow> None | Some b \<Rightarrow> Some (int (gm_index b) + 1));
          posSource = (case best of None \<Rightarrow> unknown | Some b \<Rightarrow> array_index_fallback);
          conf = (case best of None \<Rightarrow> 0 | Some b \<Rightarrow> confidence (gm_domainMatch b));
          validation =
            \<lparr> originalPosition = pos,
              verifiedPosition = None,
              positionSource = posSource,
              pv_confidence = conf,
              discrepancy = None,
              serpFeatures = [],
              organicResultsCount = int (length its),
              totalResultsInSerp = int (length its),
              validationMethod = fallback_used,
              warnings = [],
              arrayIndexPosition = pos \<rparr>
      in
      \<lparr> keyword = trim kw,
        r_domain = domain options,
        position = pos,
        url = (case best of None \<Rightarrow> [] | Some b \<Rightarrow> orEmpty (g_link (gm_item b))),
        title = (case best of None \<Rightarrow> [] | Some b \<Rightarrow> orEmpty (g_title (gm_item b))),
        description = (case best of None \<Rightarrow> [] | Some b \<Rightarrow> orEmpty (g_snippet (gm_item b))),
        r_country = toUpperCase (country options),
        r_city = (case city options of None \<Rightarrow> [] | Some c \<Rightarrow> trim c),
        r_state = (case state options of None \<Rightarrow> [] | Some c \<Rightarrow> trim c),
        r_postalCode = (case postalCode options of None \<Rightarrow> [] | Some c \<Rightarrow> trim c),
        totalResults = parseInt (if truthyStr (searchInformation_totalResults data)
                                 then orEmpty (searchInformation_totalResults data) else ''0''),
        searchedResults = int (length its),
        found = foundMatch,
        positionValidation = validation,
        competitorUrls =
          map (\<lambda>(idx, item). \<lparr> c_position = int idx + 1, c_url = orEmpty (g_link item),
                                 c_domain = extractDomain (orEmpty (g_link item)),
                                 c_title = orEmpty (g_title item) \<rparr>)
            (indexed 0 (take 10 its)),
        resultQuality = \<lparr> positionReliability = reliabilityOf conf, serpComplexity = simple \<rparr> \<rparr>)"

section \<open>The specification's reading of the total-results field\<close>

text \<open>
  The specification words the parsing of \<open>total_results\<close> as "the first run of digits in
  the field". This second definition follows those words, to be compared with
  \<open>parseTotalResults\<close> above, which follows the source.
\<close>

definition firstDigitRun :: "string \<Rightarrow> string" where
  "firstDigitRun s = takeWhile isDigit (dropWhile (\<lambda>c. \<not> isDigit c) s)"

definition parseTotalResults_firstRun :: "total_results \<Rightarrow> jsNumber" where
  "parseTotalResults_firstRun totalRes =
     (case totalRes of
        TotalNumber x \<Rightarrow> x
      | TotalString s \<Rightarrow> toNumber (digitsValue 10 (firstDigitRun s))
      | TotalMissing \<Rightarrow> Exact 0)"

text \<open>
  A second reading of the same words, tolerant of thousands separators as the
  specification's example suggests: the first run of digits and commas, read without
  its commas.
\<close>

definition firstGroupedRun :: "string \<Rightarrow> string" where
  "firstGroupedRun s =
     filter isDigit
       (takeWhile (\<lambda>c. isDigit c \<or> c = CHR '','') (dropWhile (\<lambda>c. \<not> isDigit c) s))"

definition parseTotalResults_groupedRun :: "total_results \<Rightarrow> jsNumber" where
  "parseTotalResults_groupedRun totalRes =
     (case totalRes of
        TotalNumber x \<Rightarrow> x
      | TotalString s \<Rightarrow> toNumber (digitsValue 10 (firstGroupedRun s))
      | TotalMissing \<Rightarrow> Exact 0)"

section \<open>Building the native-SERP request\<close>

text \<open>\<open>String(n)\<close> for an integer.\<close>

function digitsOf :: "int \<Rightarrow> string" where
  "digitsOf n =
     (if n < 10 then [char_of (48 + n)]
      else digitsOf (n div 10) @ [char_of (48 + n mod 10)])"
  by pat_completeness auto
termination
  by (relation "measure nat") auto

declare digitsOf.simps [simp del]

definition numToString :: "int \<Rightarrow> string" where
  "numToString n = (if n < 0 then CHR ''-'' # digitsOf (- n) else digitsOf n)"

text \<open>The fixed code-to-name table of \<open>makeSerpApiRequest\<close>.\<close>

definition countryMap :: "(string \<times> string) list" where
  "countryMap =
     [(''US'', ''United States''), (''UK'', ''United Kingdom''), (''CA'', ''Canada''),
      (''AU'', ''Australia''), (''NZ'', ''New Zealand''), (''IE'', ''Ireland''),
      (''IN'', ''India''), (''DE'', ''Germany''), (''FR'', ''France''), (''ES'', ''Spain''),
      (''IT'', ''Italy''), (''BR'', ''Brazil''), (''MX'', ''Mexico''), (''AR'', ''Argentina''),
      (''CL'', ''Chile''), (''CO'', ''Colombia''), (''PE'', ''Peru''), (''JP'', ''Japan''),
      (''CN'', ''China''), (''KR'', ''South Korea''), (''SG'', ''Singapore''),
      (''MY'', ''Malaysia''), (''TH'', ''Thailand''), (''PH'', ''Philippines''),
      (''ID'', ''Indonesia''), (''VN'', ''Vietnam''), (''ZA'', ''South Africa''),
      (''NG'', ''Nigeria''), (''KE'', ''Kenya''), (''EG'', ''Egypt''),
      (''SA'', ''Saudi Arabia''), (''AE'', ''United Arab Emirates''), (''IL'', ''Israel''),
      (''TR'', ''Turkey''), (''RU'', ''Russia''), (''PL'', ''Poland''),
      (''NL'', ''Netherlands''), (''BE'', ''Belgium''), (''SE'', ''Sweden''),
      (''NO'', ''Norway''), (''DK'', ''Denmark''), (''FI'', ''Finland''),
      (''CH'', ''Switzerland''), (''AT'', ''Austria''), (''PT'', ''Portugal''),
      (''GR'', ''Greece''), (''CZ'', ''Czech Republic''), (''RO'', ''Romania''),
      (''HU'', ''Hungary'')]"

text \<open>\<open>URLSearchParams\<close> as an ordered list of pairs, with its \<open>get\<close>, \<open>append\<close> and \<open>set\<close>.\<close>

type_synonym params = "(string \<times> string) list"

definition paramsGet :: "params \<Rightarrow> string \<Rightarrow> string option" where
  "paramsGet ps name = map_of ps name"

definition paramsAppend :: "params \<Rightarrow> string \<Rightarrow> string \<Rightarrow> params" where
  "paramsAppend ps name v = ps @ [(name, v)]"

fun paramsSet :: "params \<Rightarrow> string \<Rightarrow> string \<Rightarrow> params" where
  "paramsSet [] name v = [(name, v)]"
| "paramsSet ((n, w) # ps) name v =
     (if n = name then (name, v) # filter (\<lambda>(m, _). m \<noteq> name) ps
      else (n, w) # paramsSet ps name v)"

definition deviceName :: "device \<Rightarrow> string" where
  "deviceName d = (case d of desktop \<Rightarrow> ''desktop'' | mobile \<Rightarrow> ''mobile'' | tablet \<Rightarrow> ''tablet'')"

text \<open>\<open>x && x.trim()\<close> on an optional string: present and not blank.\<close>

definition nonBlank :: "string option \<Rightarrow> bool" where
  "nonBlank s = (truthyStr s \<and> trim (orEmpty s) \<noteq> [])"

text \<open>
  The query parameters that \<open>makeSerpApiRequest\<close> sends: the part of the function
  before the HTTP exchange. \<open>options.maxResults || 120\<close> takes 120 for a missing and
  for a zero value.
\<close>

definition serpApiParams :: "string \<Rightarrow> string \<Rightarrow> ISearchOptions \<Rightarrow> params" where
  "serpApiParams apiKeyValue kw options =
     (let ps = [(''engine'', if truthyStr (searchEngine options)
                             then orEmpty (searchEngine options) else ''google''),
                (''q'', trim kw),
                (''api_key'', apiKeyValue),
                (''gl'', toLowerCase (country options)),
                (''hl'', if truthyStr (language options) then orEmpty (language options) else ''en''),
                (''num'', numToString (if truthyNum (maxResults options)
                                       then the (maxResults options) else 120)),
                (''start'', ''0''),
                (''device'', case device options of None \<Rightarrow> ''desktop'' | Some d \<Rightarrow> deviceName d),
                (''safe'', ''off''),
                (''filter'', ''0''),
                (''no_cache'', ''true'')];
          locationParts =
            (if nonBlank (city options) then [trim (orEmpty (city options))] else [])
            @ (if nonBlank (state options) then [trim (orEmpty (state options))] else [])
            @ (if country options \<noteq> [] \<and> trim (country options) \<noteq> []
               then [case map_of countryMap (trim (toUpperCase (country options))) of
                       Some name \<Rightarrow> name
                     | None \<Rightarrow> country options]
               else []);
          ps = (if locationParts \<noteq> [] then paramsAppend ps ''location'' (join '', '' locationParts)
                else ps);
          ps = (if truthyStr (postalCode options)
                then (case paramsGet ps ''location'' of
                        Some existing \<Rightarrow>
                          if existing \<noteq> []
                          then paramsSet ps ''location'' (existing @ '' '' @ trim (orEmpty (postalCode options)))
                          else paramsSet ps ''location'' (trim (orEmpty (postalCode options)))
                      | None \<Rightarrow> paramsSet ps ''location'' (trim (orEmpty (postalCode options))))
                else ps)
      in (case customParams options of
            None \<Rightarrow> ps
          | Some extra \<Rightarrow> foldl (\<lambda>acc (k, v). paramsAppend acc k v) ps extra))"

text \<open>The \<open>num\<close> that the parser afterwards records in \<open>rawParams\<close> of the metadata.\<close>

definition rawParamsNum :: "ISearchOptions \<Rightarrow> string" where
  "rawParamsNum options =
     numToString (if truthyNum (maxResults options) then the (maxResults options) else 100)"

section \<open>The credential pool\<close>














section \<open>Errors and the lookup\<close>

datatype errorType =
    quota_exceeded | rate_limited | invalid_request | timeout | network_error | parse_error
  | unknown_error














section \<open>The specification's wording of selection and confidence\<close>

text \<open>
  The matched results of a list, each with its index and its grade, in list order:
  the results the search loop would compare were it to run to the end.
\<close>

fun candidatesFrom :: "string \<Rightarrow> nat \<Rightarrow> ISerpApiOrganicResult list \<Rightarrow> bestMatch list" where
  "candidatesFrom cleanDomain i [] = []"
| "candidatesFrom cleanDomain i (result # rest) =
     (let dm = domainsMatch (extractDomain (orEmpty (link result))) cleanDomain in
      if truthyStr (link result) \<and> matched dm
      then \<lparr> bm_result = result, bm_index = i, bm_domainMatch = dm \<rparr>
             # candidatesFrom cleanDomain (i + 1) rest
      else candidatesFrom cleanDomain (i + 1) rest)"

definition grade :: "bestMatch \<Rightarrow> int" where
  "grade c = confidence (bm_domainMatch c)"

text \<open>
  The selection in the specification's words: among the candidates of highest
  confidence, one that carries a position is preferred, and on a further tie the
  earliest is kept. What "carries a position" means is the parameter \<open>hasPosition\<close>.
\<close>

definition highest :: "bestMatch list \<Rightarrow> bestMatch list" where
  "highest cs = filter (\<lambda>c. list_all (\<lambda>d. grade d \<le> grade c) cs) cs"

definition selectBest :: "(int option \<Rightarrow> bool) \<Rightarrow> bestMatch list \<Rightarrow> bestMatch option" where
  "selectBest hasPosition cs =
     (case filter (\<lambda>c. hasPosition (o_position (bm_result c))) (highest cs) of
        c # _ \<Rightarrow> Some c
      | [] \<Rightarrow> (case highest cs of c # _ \<Rightarrow> Some c | [] \<Rightarrow> None))"

text \<open>
  The loop seen on the candidates alone: one comparison per candidate, leaving at the
  first candidate that is an exact match with a valid position.
\<close>

definition keepBetter :: "bestMatch option \<Rightarrow> bestMatch \<Rightarrow> bestMatch option" where
  "keepBetter best c =
     (if replacesBest best (bm_result c) (bm_domainMatch c) then Some c else best)"

text \<open>An exact match with a valid provider position: the result at which the loop breaks.\<close>

definition isStop :: "bestMatch \<Rightarrow> bool" where
  "isStop c = (matchType (bm_domainMatch c) = exact \<and> validPosition (o_position (bm_result c)))"

fun scan :: "bestMatch option \<Rightarrow> bestMatch list \<Rightarrow> bestMatch option" where
  "scan best [] = best"
| "scan best (c # cs) = (if isStop c then keepBetter best c else scan (keepBetter best c) cs)"

definition visitedBySpec :: "string \<Rightarrow> ISerpApiOrganicResult list \<Rightarrow> nat" where
  "visitedBySpec cleanDomain rs =
     (case find isStop (candidatesFrom cleanDomain 0 rs) of
        None \<Rightarrow> length rs
      | Some c \<Rightarrow> bm_index c + 1)"

text \<open>
  The confidence formula in the specification's words: start at 100; subtract 30 for
  \<open>array_index_fallback\<close> and 50 for \<open>unknown\<close>; subtract \<open>min(5 * feature_count, 20)\<close>;
  subtract 10 if the organic count is below 10; subtract \<open>min(5 * warning_count, 15)\<close>;
  0 when not found; clamped to 0..100.
\<close>

definition confidenceFormula :: "PositionSource \<Rightarrow> nat \<Rightarrow> int \<Rightarrow> nat \<Rightarrow> bool \<Rightarrow> int" where
  "confidenceFormula src featureCount organicCount warningCount fnd =
     (if \<not> fnd then 0
      else max 0 (min 100
             (100
              - (if src = array_index_fallback then 30 else if src = unknown then 50 else 0)
              - min (5 * int featureCount) 20
              - (if organicCount < 10 then 10 else 0)
              - min (5 * int warningCount) 15)))"

text \<open>The warnings that exist when the confidence is computed: all but the verification warning.\<close>

fun isVerificationWarning :: "warning \<Rightarrow> bool" where
  "isVerificationWarning (SignificantDiscrepancy _ _) = True"
| "isVerificationWarning _ = False"

section \<open>Concrete inputs\<close>

text \<open>Inputs on which the definitions are evaluated below.\<close>

definition optionsFor :: "string \<Rightarrow> ISearchOptions" where
  "optionsFor target =
     \<lparr> domain = target, country = ''us'', language = None, city = None, state = None,
       postalCode = None, device = None, apiKey = None, apiProvider = None,
       searchEngine = None, maxResults = None, verificationMode = None,
       customParams = None \<rparr>"

definition organic :: "int option \<Rightarrow> string \<Rightarrow> ISerpApiOrganicResult" where
  "organic p l =
     \<lparr> o_position = p, o_title = None, link = Some l, snippet = None,
       rich_snippet_description = None, o_type = None \<rparr>"

definition responseOf :: "ISerpApiOrganicResult list \<Rightarrow> ISerpApiResponse" where
  "responseOf rs =
     \<lparr> organic_results = Some rs, ads = None, inline_images = None, inline_videos = None,
       related_searches = None, answer_box = False, knowledge_graph = False,
       local_results = LocalAbsent, top_stories = False,
       search_information_total_results = TotalString ''About 1,240,000 results'' \<rparr>"

text \<open>Scenario S1: the target is found through its provider position.\<close>

definition scenarioS1 :: ISerpApiResponse where
  "scenarioS1 =
     responseOf [organic (Some 3) ''https://www.example.com/a'',
                 organic (Some 1) ''https://other.com'']"

text \<open>A custom-search answer whose only item is the target itself.\<close>

definition customSearchExact :: IGoogleCustomSearchResponse where
  "customSearchExact =
     \<lparr> items = Some [\<lparr> g_title = Some ''Example'', g_link = Some ''https://example.com/'',
                       g_snippet = None \<rparr>],
       searchInformation_totalResults = Some ''12'' \<rparr>"

text \<open>Two results of the same grade; the first carries the position 0, the second 5.\<close>

definition zeroPositionFirst :: "ISerpApiOrganicResult list" where
  "zeroPositionFirst =
     [organic (Some 0) ''https://blog.example.com/a'',
      organic (Some 5) ''https://blog.example.com/b'']"

text \<open>Two exact matches with valid positions: the loop leaves at the first.\<close>

definition exactFirst :: "ISerpApiOrganicResult list" where
  "exactFirst =
     [organic (Some 2) ''https://example.com/x'',
      organic (Some 1) ''https://www.example.com/'']"








section \<open>Properties of the domain matcher\<close>

text \<open>
  C10. For every pair of input strings, the confidence that \<open>domainsMatch\<close> returns is one
  of the fixed grades 0, 75, 85, 90, 93, 95 and 100, and the \<open>matched\<close> flag is true
  exactly when that confidence is greater than 0.
\<close>

theorem domainsMatch_grades:
  "confidence (domainsMatch a b) \<in> {0, 75, 85, 90, 93, 95, 100} \<and>
   (matched (domainsMatch a b) \<longleftrightarrow> confidence (domainsMatch a b) > 0)"
  by (simp add: domainsMatch_def Let_def)

theorem domainsMatch_grades_witness:
  "matched (domainsMatch ''shop.example.com'' ''example.org'') = False \<and>
   confidence (domainsMatch ''shop.example.com'' ''example.org'') = 0 \<and>
   matched (domainsMatch ''WWW2.Example.com'' ''example.com'') \<and>
   confidence (domainsMatch ''WWW2.Example.com'' ''example.com'') = 95"
proof -
  have a: "confidence (domainsMatch ''shop.example.com'' ''example.org'') = 0"
    by code_simp
  have b: "confidence (domainsMatch ''WWW2.Example.com'' ''example.com'') = 95"
    by code_simp
  from a b
    domainsMatch_grades [of "''shop.example.com''" "''example.org''"]
    domainsMatch_grades [of "''WWW2.Example.com''" "''example.com''"]
  show ?thesis by simp
qed

text \<open>
  C6. Scenario S6 asks for three grades. The matcher gives the first two:
  \<open>blog.example.com\<close> against \<open>example.com\<close> is a subdomain match with confidence 85, and
  \<open>www.example.com\<close> against \<open>example.com\<close> is a normalized match with confidence 95.
  The third it does not give: \<open>singularize\<close> anchors its three replacements at the end
  of the whole host name, which is the top-level domain, so \<open>companies.co\<close> is left as
  it is, and \<open>companies.co\<close> against \<open>company.co\<close> ends in no match with confidence 0
  where the scenario expects a normalized match with confidence 93. On the bare words
  the replacement does what its comment says: \<open>companies\<close> becomes \<open>company\<close>.
\<close>

theorem domainsMatch_scenario_S6:
  "matchType (domainsMatch ''blog.example.com'' ''example.com'') = subdomain \<and>
   confidence (domainsMatch ''blog.example.com'' ''example.com'') = 85 \<and>
   matchType (domainsMatch ''www.example.com'' ''example.com'') = normalized \<and>
   confidence (domainsMatch ''www.example.com'' ''example.com'') = 95 \<and>
   singularize ''companies'' = ''company'' \<and>
   singularize ''companies.co'' = ''companies.co'' \<and>
   matched (domainsMatch ''companies.co'' ''company.co'') = False \<and>
   matchType (domainsMatch ''companies.co'' ''company.co'') = none \<and>
   confidence (domainsMatch ''companies.co'' ''company.co'') = 0"
  by code_simp

theorem domainsMatch_scenario_S6_witness:
  "confidence (domainsMatch ''companies.co'' ''company.co'') < 93 \<and>
   matchType (domainsMatch ''companies.co'' ''company.co'') \<noteq> normalized"
  using domainsMatch_scenario_S6 by simp

section \<open>Properties of the total-results parser\<close>

lemma isDigit_facts:
  "isDigit c \<Longrightarrow>
     \<not> isSpace c \<and> c \<noteq> CHR ''-'' \<and> c \<noteq> CHR ''+'' \<and> c \<noteq> CHR ''x'' \<and> lowerChar c = c"
  by (auto simp: isDigit_def isSpace_def lowerChar_def Let_def)

text \<open>On a non-empty string of digits \<open>parseInt\<close> reads the whole string in base ten.\<close>

lemma parseInt_digits:
  assumes "ds \<noteq> []" and "\<forall>c\<in>set ds. isDigit c"
  shows "parseInt ds = toNumber (digitsValue 10 ds)"
proof -
  obtain c cs where ds: "ds = c # cs" using assms(1) by (cases ds) auto
  have c: "isDigit c" using assms(2) ds by simp
  have sp: "dropWhile isSpace ds = ds" using c isDigit_facts[of c] ds by simp
  have sg: "\<not> startsWith ds ''-''" "\<not> startsWith ds ''+''"
    using c isDigit_facts[of c] ds by (auto simp: startsWith_def)
  have hx: "\<not> startsWith (toLowerCase ds) ''0x''"
  proof (cases cs)
    case Nil
    then show ?thesis using ds by (simp add: startsWith_def toLowerCase_def)
  next
    case (Cons d es)
    then have "isDigit d" using assms(2) ds by simp
    then show ?thesis
      using isDigit_facts[of d] ds Cons by (auto simp: startsWith_def toLowerCase_def)
  qed
  have tk: "takeWhile isDigit ds = ds" using assms(2) by (simp add: takeWhile_eq_all_conv)
  show ?thesis by (simp add: parseInt_def Let_def sp sg hx tk assms(1))
qed

text \<open>\<open>digitsValue\<close> is the positional value: appending a digit multiplies by the base.\<close>

lemma digitsValue_snoc: "digitsValue b (ds @ [d]) = digitsValue b ds * b + digitVal d"
  by (simp add: digitsValue_def)

lemma digitVal_digit: "isDigit c \<Longrightarrow> 0 \<le> digitVal c \<and> digitVal c \<le> 9"
  by (auto simp: isDigit_def digitVal_def lowerChar_def Let_def)

lemma foldl_digits_nonneg:
  "\<forall>c\<in>set ds. isDigit c \<Longrightarrow> 0 \<le> acc \<Longrightarrow> 0 \<le> foldl (\<lambda>acc c. acc * 10 + digitVal c) acc ds"
proof (induction ds arbitrary: acc)
  case Nil
  then show ?case by simp
next
  case (Cons d ds)
  have "0 \<le> acc * 10 + digitVal d" using Cons.prems digitVal_digit[of d] by simp
  then show ?case using Cons by simp
qed

lemma digitsValue_nonneg: "\<forall>c\<in>set ds. isDigit c \<Longrightarrow> 0 \<le> digitsValue 10 ds"
  using foldl_digits_nonneg[of ds 0] by (simp add: digitsValue_def)

lemma parseTotalResults_string:
  "parseTotalResults (TotalString s) = toNumber (digitsValue 10 (filter isDigit s))"
proof (cases "filter isDigit s = []")
  case True
  have "parseInt ''0'' = Exact 0" by code_simp
  then show ?thesis using True by (simp add: parseTotalResults_def digitsValue_def toNumber_def)
next
  case False
  have "parseInt (filter isDigit s) = toNumber (digitsValue 10 (filter isDigit s))"
    by (rule parseInt_digits[OF False]) simp
  then show ?thesis using False by (simp add: parseTotalResults_def toNumber_def Let_def)
qed

text \<open>
  C4, as the specification words it, fails: the field \<open>About 1,240,000 results\<close> is read
  as 1240000, while its first run of digits is \<open>1\<close>. Reading the first run with its
  thousands separators does not save the wording either: the field
  \<open>About 1,240,000 results (0.42 seconds)\<close> is read as 1240000042, all its digits in a
  row, while its first run is \<open>1\<close> and its first run with separators is 1240000.
\<close>

theorem parseTotalResults_firstRun_counterexample:
  "parseTotalResults (TotalString ''About 1,240,000 results'') = Exact 1240000 \<and>
   parseTotalResults_firstRun (TotalString ''About 1,240,000 results'') = Exact 1 \<and>
   parseTotalResults (TotalString ''About 1,240,000 results (0.42 seconds)'') = Exact 1240000042 \<and>
   parseTotalResults_firstRun (TotalString ''About 1,240,000 results (0.42 seconds)'') = Exact 1 \<and>
   parseTotalResults_groupedRun (TotalString ''About 1,240,000 results (0.42 seconds)'') = Exact 1240000"
  by code_simp

text \<open>
  C4, amended. For every native-SERP response, the record's total-results value is
  obtained from a string field by deleting every character that is not a digit and
  reading all the remaining digits as one decimal number (so \<open>About 1,240,000 results\<close>
  gives 1240000); the number is that value exactly whenever the value is at most
  \<open>2^53 = 9007199254740992\<close>, the range in which a JavaScript number holds every
  integer. It is 0 when no digit remains or the field is missing; a numeric field is
  taken as it is.
\<close>

theorem parseTotalResults_all_digits:
  "parseTotalResults (TotalNumber x) = x \<and>
   parseTotalResults TotalMissing = Exact 0 \<and>
   (digitsValue 10 (filter isDigit s) \<le> 9007199254740992 \<longrightarrow>
      parseTotalResults (TotalString s) = Exact (digitsValue 10 (filter isDigit s)))"
proof -
  have "0 \<le> digitsValue 10 (filter isDigit s)" by (rule digitsValue_nonneg) simp
  then show ?thesis
    by (simp add: parseTotalResults_string toNumber_def) (simp add: parseTotalResults_def)
qed

theorem parseTotalResults_all_digits_witness:
  "parseTotalResults (TotalNumber (Exact 42)) = Exact 42 \<and>
   parseTotalResults (TotalString ''no results'') = Exact 0 \<and>
   parseTotalResults (TotalString ''About 1,240,000 results'') = Exact 1240000"
proof -
  have a: "digitsValue 10 (filter isDigit ''no results'') = 0" by code_simp
  have b: "digitsValue 10 (filter isDigit ''About 1,240,000 results'') = 1240000" by code_simp
  from a b
    parseTotalResults_all_digits [of "Exact 42" "''no results''"]
    parseTotalResults_all_digits [of "Exact 42" "''About 1,240,000 results''"]
  show ?thesis by simp
qed

section \<open>Properties of the ranking record\<close>

lemma domainsMatch_confidence_cases:
  "confidence (domainsMatch a b) \<in> {0, 75, 85, 90, 93, 95, 100} \<and>
   (matched (domainsMatch a b) \<longleftrightarrow> confidence (domainsMatch a b) > 0)"
  by (simp add: domainsMatch_def Let_def)

lemma matched_confidence_bounds:
  assumes "matched (domainsMatch a b)"
  shows "75 \<le> confidence (domainsMatch a b) \<and> confidence (domainsMatch a b) \<le> 100"
  using assms domainsMatch_confidence_cases[of a b] by auto

text \<open>The item that the custom-search loop takes is a match, graded against the target.\<close>

lemma firstMatch_Some:
  "firstMatch cd its i = Some b \<Longrightarrow>
     gm_domainMatch b = domainsMatch (extractDomain (orEmpty (g_link (gm_item b)))) cd \<and>
     75 \<le> confidence (gm_domainMatch b) \<and> confidence (gm_domainMatch b) \<le> 100"
proof (induction its arbitrary: i)
  case Nil
  then show ?case by simp
next
  case (Cons a its)
  show ?case
  proof (cases "truthyStr (g_link a) \<and> matched (domainsMatch (extractDomain (orEmpty (g_link a))) cd)")
    case True
    then have "b = \<lparr> gm_item = a, gm_index = i,
                     gm_domainMatch = domainsMatch (extractDomain (orEmpty (g_link a))) cd \<rparr>"
      using Cons.prems by (auto simp: Let_def)
    then show ?thesis using True matched_confidence_bounds by simp
  next
    case False
    then have "firstMatch cd its (i + 1) = Some b"
      using Cons.prems by (auto simp: Let_def split: if_splits)
    then show ?thesis by (rule Cons.IH)
  qed
qed

lemma calculatePositionConfidence_found_bounds:
  "0 < calculatePositionConfidence src True fs n ws \<and>
   calculatePositionConfidence src True fs n ws \<le> 100"
  by (simp add: calculatePositionConfidence_def Let_def min_def max_def)

lemma validPosition_Some: "validPosition p \<Longrightarrow> \<exists>n. p = Some n \<and> 0 < n"
  by (cases p) (auto simp: validPosition_def truthyNum_def)

lemma native_found_position:
  "found (parseSearchResults kw data options) \<longleftrightarrow>
     position (parseSearchResults kw data options) \<noteq> None"
  by (auto simp: parseSearchResults_def Let_def split: option.splits dest: validPosition_Some)

lemma native_found_confidence:
  "found (parseSearchResults kw data options) \<Longrightarrow>
     0 < pv_confidence (positionValidation (parseSearchResults kw data options)) \<and>
     pv_confidence (positionValidation (parseSearchResults kw data options)) \<le> 100"
  using calculatePositionConfidence_found_bounds
  by (simp add: parseSearchResults_def Let_def)

lemma google_found_position:
  "found (parseGoogleCustomSearchResults kw gdata options) \<longleftrightarrow>
     position (parseGoogleCustomSearchResults kw gdata options) \<noteq> None"
  by (simp add: parseGoogleCustomSearchResults_def Let_def split: option.splits)

lemma google_found_confidence:
  assumes "found (parseGoogleCustomSearchResults kw gdata options)"
  shows "0 < pv_confidence (positionValidation (parseGoogleCustomSearchResults kw gdata options)) \<and>
     pv_confidence (positionValidation (parseGoogleCustomSearchResults kw gdata options)) \<le> 100"
proof -
  obtain b where b: "firstMatch (extractDomain (domain options))
                       (case items gdata of None \<Rightarrow> [] | Some xs \<Rightarrow> xs) 0 = Some b"
    using assms by (auto simp: parseGoogleCustomSearchResults_def Let_def)
  from firstMatch_Some[OF b]
  have "75 \<le> confidence (gm_domainMatch b) \<and> confidence (gm_domainMatch b) \<le> 100"
    by blast
  then show ?thesis
    using b by (simp add: parseGoogleCustomSearchResults_def Let_def)
qed

text \<open>
  C1. For every ranking record that a lookup produces, from the native-SERP parser and
  from the custom-search parser alike, \<open>found\<close> is true if and only if \<open>position\<close> is not
  null, and whenever \<open>found\<close> is true the confidence of the record is greater than 0 and
  at most 100.
\<close>

theorem ranking_record_found_position_confidence:
  "(found (parseSearchResults kw data options) \<longleftrightarrow>
      position (parseSearchResults kw data options) \<noteq> None) \<and>
   (found (parseSearchResults kw data options) \<longrightarrow>
      0 < pv_confidence (positionValidation (parseSearchResults kw data options)) \<and>
      pv_confidence (positionValidation (parseSearchResults kw data options)) \<le> 100) \<and>
   (found (parseGoogleCustomSearchResults kw gdata options) \<longleftrightarrow>
      position (parseGoogleCustomSearchResults kw gdata options) \<noteq> None) \<and>
   (found (parseGoogleCustomSearchResults kw gdata options) \<longrightarrow>
      0 < pv_confidence (positionValidation (parseGoogleCustomSearchResults kw gdata options)) \<and>
      pv_confidence (positionValidation (parseGoogleCustomSearchResults kw gdata options)) \<le> 100)"
  using native_found_position native_found_confidence
    google_found_position google_found_confidence
  by blast

theorem ranking_record_found_position_confidence_witness:
  "found (parseSearchResults ''kw'' scenarioS1 (optionsFor ''example.com'')) \<and>
   position (parseSearchResults ''kw'' scenarioS1 (optionsFor ''example.com'')) = Some 3 \<and>
   0 < pv_confidence (positionValidation
         (parseSearchResults ''kw'' scenarioS1 (optionsFor ''example.com''))) \<and>
   found (parseGoogleCustomSearchResults ''kw'' customSearchExact (optionsFor ''example.com'')) \<and>
   pv_confidence (positionValidation
     (parseGoogleCustomSearchResults ''kw'' customSearchExact (optionsFor ''example.com''))) \<le> 100"
proof -
  have a: "found (parseSearchResults ''kw'' scenarioS1 (optionsFor ''example.com''))"
    by code_simp
  have b: "position (parseSearchResults ''kw'' scenarioS1 (optionsFor ''example.com'')) = Some 3"
    by code_simp
  have c: "found (parseGoogleCustomSearchResults ''kw'' customSearchExact (optionsFor ''example.com''))"
    by code_simp
  from a b c
    ranking_record_found_position_confidence
      [of "''kw''" scenarioS1 "optionsFor ''example.com''" customSearchExact]
  show ?thesis by simp
qed

section \<open>Properties of the confidence\<close>

lemma clamp_upper_redundant:
  fixes x y p q :: int
  assumes "0 \<le> x" "0 \<le> y" "0 \<le> p" "0 \<le> q"
  shows "max 0 (min 100 (100 - p - x - q - y)) = max 0 (100 - p - x - q - y)"
  using assms by simp

text \<open>\<open>calculatePositionConfidence\<close> computes the formula of the specification.\<close>

lemma calculatePositionConfidence_formula:
  "calculatePositionConfidence src fnd fs n ws =
     confidenceFormula src (length fs) n (length ws) fnd"
proof (cases fnd)
  case False
  then show ?thesis by (simp add: calculatePositionConfidence_def confidenceFormula_def)
next
  case True
  define x where "x = min (5 * int (length fs)) 20"
  define y where "y = min (5 * int (length ws)) 15"
  define p :: int where
    "p = (if src = array_index_fallback then 30 else if src = unknown then 50 else 0)"
  define q :: int where "q = (if n < 10 then 10 else 0)"
  have nn: "0 \<le> x" "0 \<le> y" "0 \<le> p" "0 \<le> q"
    by (simp_all add: x_def y_def p_def q_def)
  have l: "calculatePositionConfidence src fnd fs n ws = max 0 (100 - p - x - q - y)"
    using True
    by (simp add: calculatePositionConfidence_def Let_def x_def y_def p_def q_def mult.commute)
  have r: "confidenceFormula src (length fs) n (length ws) fnd =
             max 0 (min 100 (100 - p - x - q - y))"
    using True by (simp add: confidenceFormula_def x_def y_def p_def q_def)
  show ?thesis unfolding l r using clamp_upper_redundant[OF nn] by simp
qed

lemma verifyPosition_warning:
  "snd (snd (verifyPosition p a fs n)) = Some w \<Longrightarrow> isVerificationWarning w"
  by (auto simp: verifyPosition_def Let_def split: if_splits)

lemma native_confidence_formula:
  "pv_confidence (positionValidation (parseSearchResults kw data options)) =
   confidenceFormula (positionSource (positionValidation (parseSearchResults kw data options)))
     (length (serpFeatures (positionValidation (parseSearchResults kw data options))))
     (organicResultsCount (positionValidation (parseSearchResults kw data options)))
     (length (filter (\<lambda>w. \<not> isVerificationWarning w)
        (warnings (positionValidation (parseSearchResults kw data options)))))
     (found (parseSearchResults kw data options))"
  by (auto simp: parseSearchResults_def Let_def calculatePositionConfidence_formula
      split: option.splits dest: verifyPosition_warning)

lemma google_confidence_grade:
  "pv_confidence (positionValidation (parseGoogleCustomSearchResults kw gdata options)) =
     (if found (parseGoogleCustomSearchResults kw gdata options)
      then confidence
             (domainsMatch (extractDomain (url (parseGoogleCustomSearchResults kw gdata options)))
                (extractDomain (r_domain (parseGoogleCustomSearchResults kw gdata options))))
      else 0)"
proof (cases "firstMatch (extractDomain (domain options))
                (case items gdata of None \<Rightarrow> [] | Some xs \<Rightarrow> xs) 0")
  case None
  then show ?thesis by (simp add: parseGoogleCustomSearchResults_def Let_def)
next
  case (Some b)
  from firstMatch_Some[OF Some] show ?thesis
    using Some by (simp add: parseGoogleCustomSearchResults_def Let_def)
qed

text \<open>
  C2, as stated, fails for the custom-search shape: a record whose only item is the
  target itself has confidence 100, the grade of the domain match, while the formula
  on the same record (source \<open>array_index_fallback\<close>, no feature, one organic result,
  no warning, found) gives 60.
\<close>

theorem customSearch_confidence_counterexample:
  "pv_confidence (positionValidation
     (parseGoogleCustomSearchResults ''kw'' customSearchExact (optionsFor ''example.com''))) = 100 \<and>
   confidenceFormula
     (positionSource (positionValidation
        (parseGoogleCustomSearchResults ''kw'' customSearchExact (optionsFor ''example.com''))))
     (length (serpFeatures (positionValidation
        (parseGoogleCustomSearchResults ''kw'' customSearchExact (optionsFor ''example.com'')))))
     (organicResultsCount (positionValidation
        (parseGoogleCustomSearchResults ''kw'' customSearchExact (optionsFor ''example.com''))))
     (length (warnings (positionValidation
        (parseGoogleCustomSearchResults ''kw'' customSearchExact (optionsFor ''example.com'')))))
     (found (parseGoogleCustomSearchResults ''kw'' customSearchExact (optionsFor ''example.com'')))
   = 60"
  by code_simp

text \<open>
  C2, amended. For every native-SERP ranking record the confidence equals the
  deterministic formula: start at 100; subtract 30 if the position source is
  \<open>array_index_fallback\<close> and 50 if it is \<open>unknown\<close>; subtract \<open>min(5 * feature_count, 20)\<close>;
  subtract 10 if the organic-result count is below 10; subtract
  \<open>min(5 * warning_count, 15)\<close>, where the warnings counted are those present when the
  confidence is computed, that is all but the verification-mode warning appended
  afterwards; 0 whenever \<open>found\<close> is false; clamped to 0..100. For a custom-search record
  the formula is not applied: its confidence is the domain matcher's grade of the
  matched URL against the target domain when found, and 0 when not found.
\<close>

theorem record_confidence_by_shape:
  "pv_confidence (positionValidation (parseSearchResults kw data options)) =
     confidenceFormula (positionSource (positionValidation (parseSearchResults kw data options)))
       (length (serpFeatures (positionValidation (parseSearchResults kw data options))))
       (organicResultsCount (positionValidation (parseSearchResults kw data options)))
       (length (filter (\<lambda>w. \<not> isVerificationWarning w)
          (warnings (positionValidation (parseSearchResults kw data options)))))
       (found (parseSearchResults kw data options)) \<and>
   pv_confidence (positionValidation (parseGoogleCustomSearchResults kw gdata options)) =
     (if found (parseGoogleCustomSearchResults kw gdata options)
      then confidence
             (domainsMatch (extractDomain (url (parseGoogleCustomSearchResults kw gdata options)))
                (extractDomain (r_domain (parseGoogleCustomSearchResults kw gdata options))))
      else 0)"
  using native_confidence_formula google_confidence_grade by simp

theorem record_confidence_by_shape_witness:
  "pv_confidence (positionValidation
     (parseSearchResults ''kw'' scenarioS1 (optionsFor ''example.com''))) = 90 \<and>
   confidenceFormula serpapi_position 0 2 0 True = 90 \<and>
   pv_confidence (positionValidation
     (parseGoogleCustomSearchResults ''kw'' customSearchExact (optionsFor ''example.com''))) = 100"
proof -
  have a: "pv_confidence (positionValidation
             (parseSearchResults ''kw'' scenarioS1 (optionsFor ''example.com''))) = 90"
    by code_simp
  have b: "confidenceFormula serpapi_position 0 2 0 True = 90" by code_simp
  have c: "found (parseGoogleCustomSearchResults ''kw'' customSearchExact (optionsFor ''example.com''))"
    by code_simp
  have d: "confidence
             (domainsMatch
                (extractDomain (url (parseGoogleCustomSearchResults ''kw'' customSearchExact
                   (optionsFor ''example.com''))))
                (extractDomain (r_domain (parseGoogleCustomSearchResults ''kw'' customSearchExact
                   (optionsFor ''example.com''))))) = 100"
    by code_simp
  from a b c d
    record_confidence_by_shape
      [of "''kw''" scenarioS1 "optionsFor ''example.com''" customSearchExact]
  show ?thesis by simp
qed

section \<open>Properties of the best-match selection\<close>

lemma searchLoop_scan:
  "fst (searchLoop cd rs i best) = scan best (candidatesFrom cd i rs)"
  by (induction rs arbitrary: i best) (simp_all add: Let_def keepBetter_def isStop_def)

lemma candidatesFrom_index:
  "c \<in> set (candidatesFrom cd i rs) \<Longrightarrow> i \<le> bm_index c \<and> bm_index c < i + length rs"
  by (induction rs arbitrary: i) (fastforce simp: Let_def split: if_splits)+

lemma searchLoop_visited:
  "snd (searchLoop cd rs i best) =
     (case find isStop (candidatesFrom cd i rs) of
        None \<Rightarrow> i + length rs
      | Some c \<Rightarrow> bm_index c + 1)"
  by (induction rs arbitrary: i best) (auto simp: Let_def isStop_def split: option.splits)

lemma highest_snoc:
  "highest (cs @ [c]) =
     filter (\<lambda>x. grade c \<le> grade x) (highest cs)
     @ (if \<forall>d\<in>set cs. grade d \<le> grade c then [c] else [])"
  by (auto simp: highest_def list_all_iff intro: filter_cong)

lemma highest_grade_eq:
  "x \<in> set (highest cs) \<Longrightarrow> y \<in> set (highest cs) \<Longrightarrow> grade x = grade y"
  by (auto simp: highest_def list_all_iff intro: antisym)

lemma highest_max:
  "x \<in> set (highest cs) \<Longrightarrow> d \<in> set cs \<Longrightarrow> grade d \<le> grade x"
  by (auto simp: highest_def list_all_iff)

lemma highest_nonempty: "cs \<noteq> [] \<Longrightarrow> highest cs \<noteq> []"
proof -
  assume ne: "cs \<noteq> []"
  then have "Max (grade ` set cs) \<in> grade ` set cs" by (intro Max_in) auto
  then obtain m where m: "m \<in> set cs" "grade m = Max (grade ` set cs)" by auto
  have "\<forall>d\<in>set cs. grade d \<le> grade m" using m(2) by simp
  then have "m \<in> set (highest cs)" using m(1) by (simp add: highest_def list_all_iff)
  then show ?thesis by auto
qed


lemma selectBest_None: "selectBest tp cs = None \<longleftrightarrow> cs = []"
proof
  assume "selectBest tp cs = None"
  then have "highest cs = []" by (auto simp: selectBest_def split: list.splits)
  then show "cs = []" using highest_nonempty by blast
next
  assume "cs = []" then show "selectBest tp cs = None" by (simp add: selectBest_def highest_def)
qed

lemma selectBest_Some:
  assumes "selectBest tp cs = Some b"
  shows "b \<in> set (highest cs)"
    and "tp (o_position (bm_result b)) \<or> filter (\<lambda>c. tp (o_position (bm_result c))) (highest cs) = []"
proof -
  let ?P = "\<lambda>c. tp (o_position (bm_result c))"
  show "b \<in> set (highest cs)"
  proof (cases "filter ?P (highest cs)")
    case Nil
    then show ?thesis using assms by (auto simp: selectBest_def split: list.splits)
  next
    case (Cons p ps)
    then have "b = p" using assms by (simp add: selectBest_def)
    moreover have "p \<in> set (filter ?P (highest cs))" using Cons by simp
    ultimately show ?thesis by simp
  qed
  show "?P b \<or> filter ?P (highest cs) = []"
  proof (cases "filter ?P (highest cs)")
    case Nil then show ?thesis by simp
  next
    case (Cons p ps)
    then have "b = p" using assms by (simp add: selectBest_def)
    moreover have "p \<in> set (filter ?P (highest cs))" using Cons by simp
    ultimately show ?thesis by simp
  qed
qed

lemma selectBest_preferred:
  assumes "filter (\<lambda>c. tp (o_position (bm_result c))) (highest cs) = p # ps"
  shows "selectBest tp cs = Some p"
  unfolding selectBest_def assms by simp

lemma selectBest_fallback:
  assumes "filter (\<lambda>c. tp (o_position (bm_result c))) (highest cs) = []"
    and "highest cs = t # ts"
  shows "selectBest tp cs = Some t"
  unfolding selectBest_def assms(1) by (simp add: assms(2))

lemma selectBest_snoc:
  "selectBest truthyNum (cs @ [c]) = keepBetter (selectBest truthyNum cs) c"
proof (cases "cs = []")
  case True
  then show ?thesis
    by (simp add: selectBest_def highest_def keepBetter_def replacesBest_def)
next
  case False
  let ?P = "\<lambda>c. truthyNum (o_position (bm_result c))"
  obtain b where b: "selectBest truthyNum cs = Some b"
    using False selectBest_None[of truthyNum cs] by (cases "selectBest truthyNum cs") auto
  note bh = selectBest_Some[OF b]
  have bmax: "\<And>d. d \<in> set cs \<Longrightarrow> grade d \<le> grade b" using bh(1) highest_max by blast
  have bcs: "b \<in> set cs" using bh(1) by (simp add: highest_def)
  have heq: "\<And>x. x \<in> set (highest cs) \<Longrightarrow> grade x = grade b"
    using bh(1) highest_grade_eq by blast
  consider (gt) "grade c > grade b" | (lt) "grade c < grade b" | (eq) "grade c = grade b"
    by linarith
  then show ?thesis
  proof cases
    case gt
    have "filter (\<lambda>x. grade c \<le> grade x) (highest cs) = []"
      using gt heq by (auto simp: filter_empty_conv)
    moreover have "\<forall>d\<in>set cs. grade d \<le> grade c" using gt bmax by force
    ultimately have "highest (cs @ [c]) = [c]" by (simp add: highest_snoc)
    then have "selectBest truthyNum (cs @ [c]) = Some c"
      by (simp add: selectBest_def)
    moreover have "keepBetter (Some b) c = Some c"
      using gt by (simp add: keepBetter_def replacesBest_def grade_def)
    ultimately show ?thesis using b by simp
  next
    case lt
    have "filter (\<lambda>x. grade c \<le> grade x) (highest cs) = highest cs"
      using lt heq by (auto simp: filter_id_conv)
    moreover have "\<not> (\<forall>d\<in>set cs. grade d \<le> grade c)" using lt bcs by force
    ultimately have hh: "highest (cs @ [c]) = highest cs" by (simp add: highest_snoc)
    have "selectBest truthyNum (cs @ [c]) = selectBest truthyNum cs"
      unfolding selectBest_def hh by (rule refl)
    moreover have "keepBetter (Some b) c = Some b"
      using lt by (simp add: keepBetter_def replacesBest_def grade_def)
    ultimately show ?thesis using b by simp
  next
    case eq
    have "filter (\<lambda>x. grade c \<le> grade x) (highest cs) = highest cs"
      using eq heq by (auto simp: filter_id_conv)
    moreover have "\<forall>d\<in>set cs. grade d \<le> grade c" using eq bmax by force
    ultimately have h: "highest (cs @ [c]) = highest cs @ [c]" by (simp add: highest_snoc)
    have fP: "filter ?P (highest (cs @ [c])) = filter ?P (highest cs) @ (if ?P c then [c] else [])"
      by (simp add: h)
    show ?thesis
    proof (cases "filter ?P (highest cs)")
      case (Cons p ps)
      have "filter ?P (highest (cs @ [c])) = p # (ps @ (if ?P c then [c] else []))"
        unfolding fP Cons by simp
      then have "selectBest truthyNum (cs @ [c]) = Some p" by (rule selectBest_preferred)
      moreover have "b = p" using b selectBest_preferred[OF Cons] by simp
      moreover have "?P b" using bh(2) Cons by simp
      then have "keepBetter (Some b) c = Some b"
        using eq by (simp add: keepBetter_def replacesBest_def grade_def)
      ultimately show ?thesis using b by simp
    next
      case Nil
      obtain t ts where t: "highest cs = t # ts"
        using highest_nonempty[OF False] by (cases "highest cs") auto
      have bt: "b = t" using b selectBest_fallback[OF Nil t] by simp
      have nb: "\<not> ?P b" using Nil bh(1) by (auto simp: filter_empty_conv)
      show ?thesis
      proof (cases "?P c")
        case True
        have "filter ?P (highest (cs @ [c])) = [c]" unfolding fP Nil using True by simp
        then have "selectBest truthyNum (cs @ [c]) = Some c" by (rule selectBest_preferred)
        moreover have "keepBetter (Some b) c = Some c"
          using eq True nb by (simp add: keepBetter_def replacesBest_def grade_def)
        ultimately show ?thesis using b by simp
      next
        case False
        have "filter ?P (highest (cs @ [c])) = []" unfolding fP Nil using False by simp
        moreover have "highest (cs @ [c]) = t # (ts @ [c])" unfolding h t by simp
        ultimately have "selectBest truthyNum (cs @ [c]) = Some t" by (rule selectBest_fallback)
        moreover have "keepBetter (Some b) c = Some b"
          using eq False by (simp add: keepBetter_def replacesBest_def grade_def)
        ultimately show ?thesis using b bt by simp
      qed
    qed
  qed
qed

lemma foldl_keepBetter_selectBest:
  "foldl keepBetter None cs = selectBest truthyNum cs"
proof (induction cs rule: rev_induct)
  case Nil
  then show ?case by (simp add: selectBest_def highest_def)
next
  case (snoc c cs)
  then show ?case by (simp add: selectBest_snoc)
qed


lemma domainsMatch_exact_grade:
  "confidence (domainsMatch a b) \<le> 100 \<and>
   (matchType (domainsMatch a b) = exact \<longrightarrow> confidence (domainsMatch a b) = 100)"
  by (simp add: domainsMatch_def Let_def)

lemma candidatesFrom_grades:
  "c \<in> set (candidatesFrom cd i rs) \<Longrightarrow> grade c \<le> 100 \<and> (isStop c \<longrightarrow> grade c = 100)"
proof (induction rs arbitrary: i)
  case Nil
  then show ?case by simp
next
  case (Cons r rs)
  let ?dm = "domainsMatch (extractDomain (orEmpty (link r))) cd"
  from Cons.prems have "bm_domainMatch c = ?dm \<or> c \<in> set (candidatesFrom cd (i + 1) rs)"
    by (auto simp: Let_def split: if_splits)
  then show ?case
  proof
    assume "bm_domainMatch c = ?dm"
    then show ?thesis
      using domainsMatch_exact_grade[of "extractDomain (orEmpty (link r))" cd]
      by (simp add: grade_def isStop_def)
  next
    assume "c \<in> set (candidatesFrom cd (i + 1) rs)"
    then show ?thesis by (rule Cons.IH)
  qed
qed

lemma validPosition_truthy: "validPosition p \<Longrightarrow> truthyNum p"
  by (simp add: validPosition_def)

lemma keepBetter_stable:
  "grade b = 100 \<Longrightarrow> truthyNum (o_position (bm_result b)) \<Longrightarrow>
   \<forall>c\<in>set cs. grade c \<le> 100 \<Longrightarrow> foldl keepBetter (Some b) cs = Some b"
  by (induction cs) (auto simp: keepBetter_def replacesBest_def grade_def)

lemma keepBetter_stop:
  assumes "isStop c" and "grade c = 100"
    and "case best of None \<Rightarrow> True | Some b \<Rightarrow> grade b \<le> 100"
  shows "\<exists>b'. keepBetter best c = Some b' \<and> grade b' = 100 \<and> truthyNum (o_position (bm_result b'))"
proof (cases best)
  case None
  then show ?thesis
    using assms validPosition_truthy by (simp add: keepBetter_def replacesBest_def isStop_def)
next
  case (Some b)
  show ?thesis
  proof (cases "replacesBest best (bm_result c) (bm_domainMatch c)")
    case True
    then show ?thesis
      using assms validPosition_truthy by (simp add: keepBetter_def isStop_def)
  next
    case False
    then have "grade b = 100 \<and> truthyNum (o_position (bm_result b))"
      using Some assms validPosition_truthy[of "o_position (bm_result c)"]
      by (auto simp: replacesBest_def grade_def isStop_def)
    then show ?thesis using False Some by (simp add: keepBetter_def)
  qed
qed

lemma keepBetter_bounded:
  assumes "grade c \<le> 100" and "case best of None \<Rightarrow> True | Some b \<Rightarrow> grade b \<le> 100"
  shows "case keepBetter best c of None \<Rightarrow> True | Some b \<Rightarrow> grade b \<le> 100"
  using assms by (simp add: keepBetter_def)

lemma scan_foldl:
  assumes "\<forall>c\<in>set cs. grade c \<le> 100 \<and> (isStop c \<longrightarrow> grade c = 100)"
    and "case best of None \<Rightarrow> True | Some b \<Rightarrow> grade b \<le> 100"
  shows "scan best cs = foldl keepBetter best cs"
  using assms
proof (induction cs arbitrary: best)
  case Nil
  then show ?case by simp
next
  case (Cons c cs)
  have gc: "grade c \<le> 100" using Cons.prems(1) by simp
  have rest: "\<forall>d\<in>set cs. grade d \<le> 100 \<and> (isStop d \<longrightarrow> grade d = 100)"
    using Cons.prems(1) by simp
  show ?case
  proof (cases "isStop c")
    case True
    then have "grade c = 100" using Cons.prems(1) by simp
    from keepBetter_stop[OF True this Cons.prems(2)]
    obtain b' where b': "keepBetter best c = Some b'" "grade b' = 100"
      "truthyNum (o_position (bm_result b'))" by blast
    have "foldl keepBetter (Some b') cs = Some b'"
      using keepBetter_stable[OF b'(2,3)] rest by simp
    then show ?thesis using True b'(1) by simp
  next
    case False
    have "scan (keepBetter best c) cs = foldl keepBetter (keepBetter best c) cs"
      using Cons.IH[OF rest keepBetter_bounded[OF gc Cons.prems(2)]] .
    then show ?thesis using False by simp
  qed
qed

lemma searchLoop_selectBest:
  "fst (searchLoop cd rs 0 None) = selectBest truthyNum (candidatesFrom cd 0 rs)"
proof -
  have "scan None (candidatesFrom cd 0 rs) = foldl keepBetter None (candidatesFrom cd 0 rs)"
    by (rule scan_foldl) (auto dest: candidatesFrom_grades)
  then show ?thesis by (simp add: searchLoop_scan foldl_keepBetter_selectBest)
qed

text \<open>
  C3, as stated, fails on the tie-breaker: the loop tests the position field for
  truthiness, so a position 0, which is not null, counts as no position. Of two results
  of the same grade, the first with position 0 and the second with position 5, the
  loop selects the second (index 1); the selection that prefers a non-null position and
  then the earliest index selects the first (index 0).
\<close>

theorem searchLoop_nonnull_counterexample:
  "map_option bm_index (fst (searchLoop ''example.com'' zeroPositionFirst 0 None)) = Some 1 \<and>
   map_option bm_index
     (selectBest (\<lambda>p. p \<noteq> None) (candidatesFrom ''example.com'' 0 zeroPositionFirst)) = Some 0"
  by code_simp

text \<open>
  C3, amended. For every list of organic results, the native-SERP parser selects as
  best match the matched result with the highest domain-match confidence; among
  results of equal confidence it prefers one whose provider position field is present
  and not zero; on a further tie it keeps the earliest index; and iteration stops early
  exactly when an exact match with a valid (at least 1) provider position is
  encountered: the loop visits the results up to and including the first such match,
  and all of them when there is none.
\<close>

theorem searchLoop_selects_best:
  "fst (searchLoop cd rs 0 None) = selectBest truthyNum (candidatesFrom cd 0 rs) \<and>
   snd (searchLoop cd rs 0 None) = visitedBySpec cd rs"
  using searchLoop_selectBest [of cd rs] searchLoop_visited [of cd rs 0 None]
  by (auto simp: visitedBySpec_def split: option.splits)

theorem searchLoop_selects_best_witness:
  "map_option bm_index (fst (searchLoop ''example.com'' zeroPositionFirst 0 None)) = Some 1 \<and>
   snd (searchLoop ''example.com'' zeroPositionFirst 0 None) = 2 \<and>
   map_option bm_index (fst (searchLoop ''example.com'' exactFirst 0 None)) = Some 0 \<and>
   snd (searchLoop ''example.com'' exactFirst 0 None) = 1"
proof -
  have a: "map_option bm_index
             (selectBest truthyNum (candidatesFrom ''example.com'' 0 zeroPositionFirst)) = Some 1"
    by code_simp
  have b: "visitedBySpec ''example.com'' zeroPositionFirst = 2" by code_simp
  have c: "map_option bm_index
             (selectBest truthyNum (candidatesFrom ''example.com'' 0 exactFirst)) = Some 0"
    by code_simp
  have d: "visitedBySpec ''example.com'' exactFirst = 1" by code_simp
  from a b c d
    searchLoop_selects_best [of "''example.com''" zeroPositionFirst]
    searchLoop_selects_best [of "''example.com''" exactFirst]
  show ?thesis by simp
qed

section \<open>Properties of the request builder\<close>

lemma map_of_filter_other:
  "n \<noteq> m \<Longrightarrow> map_of (filter (\<lambda>(k, _). k \<noteq> m) ps) n = map_of ps n"
  by (induction ps) auto

lemma paramsGet_set_other:
  "n \<noteq> m \<Longrightarrow> paramsGet (paramsSet ps m w) n = paramsGet ps n"
  by (induction ps) (auto simp: paramsGet_def map_of_filter_other)

lemma paramsGet_append_present:
  "paramsGet ps n = Some v \<Longrightarrow> paramsGet (paramsAppend ps m w) n = Some v"
  by (simp add: paramsGet_def paramsAppend_def map_add_Some_iff)

lemma paramsGet_foldl_present:
  "paramsGet ps n = Some v \<Longrightarrow>
     paramsGet (foldl (\<lambda>acc (k, w). paramsAppend acc k w) ps extra) n = Some v"
  by (induction extra arbitrary: ps) (auto simp: paramsGet_append_present)

lemma numToString_120: "numToString 120 = ''120''" and numToString_100: "numToString 100 = ''100''"
  by code_simp+

lemma serpApiParams_num:
  assumes "\<not> truthyNum (maxResults options)"
  shows "paramsGet (serpApiParams k kw options) ''num'' = Some ''120''"
proof -
  define base where "base =
     [(''engine'', if truthyStr (searchEngine options)
                             then orEmpty (searchEngine options) else ''google''),
                (''q'', trim kw),
                (''api_key'', k),
                (''gl'', toLowerCase (country options)),
                (''hl'', if truthyStr (language options) then orEmpty (language options) else ''en''),
                (''num'', ''120''),
                (''start'', ''0''),
                (''device'', case device options of None \<Rightarrow> ''desktop'' | Some d \<Rightarrow> deviceName d),
                (''safe'', ''off''),
                (''filter'', ''0''),
                (''no_cache'', ''true'')]"
  have b: "paramsGet base ''num'' = Some ''120''" by (simp add: base_def paramsGet_def)
  have step1: "\<And>x. paramsGet (if x \<noteq> [] then paramsAppend base ''location'' (join '', '' x) else base) ''num'' = Some ''120''"
    using b by (simp add: paramsGet_append_present)
  have step2: "\<And>ps pc. paramsGet ps ''num'' = Some ''120'' \<Longrightarrow>
     paramsGet (if truthyStr (postalCode options)
                then (case paramsGet ps ''location'' of
                        Some existing \<Rightarrow>
                          if existing \<noteq> []
                          then paramsSet ps ''location'' (existing @ '' '' @ trim (orEmpty (postalCode options)))
                          else paramsSet ps ''location'' (trim (orEmpty (postalCode options)))
                      | None \<Rightarrow> paramsSet ps ''location'' (trim (orEmpty (postalCode options))))
                else ps) ''num'' = Some ''120''"
    by (simp add: paramsGet_set_other split: option.splits)
  have step3: "\<And>ps. paramsGet ps ''num'' = Some ''120'' \<Longrightarrow>
     paramsGet (case customParams options of None \<Rightarrow> ps
          | Some extra \<Rightarrow> foldl (\<lambda>acc (k, v). paramsAppend acc k v) ps extra) ''num'' = Some ''120''"
    by (simp add: paramsGet_foldl_present split: option.splits)
  show ?thesis
    unfolding serpApiParams_def Let_def
    using assms
    by (simp only: if_False numToString_120 base_def[symmetric]) (intro step3 step2 step1)
qed

text \<open>
  C5. The claim is that a native-SERP lookup without a caller-supplied max-results is
  sent with the default 100 as its \<open>num\<close> parameter. The request builder sends 120:
  \<open>options.maxResults || 120\<close>. The declared default (\<open>maxResults?: number; // Default 100\<close>)
  and the \<open>num\<close> that the parser records for the very same request in \<open>rawParams\<close>
  (\<open>options.maxResults || 100\<close>) are both 100.
\<close>

theorem serpApiParams_default_num:
  "\<not> truthyNum (maxResults options) \<Longrightarrow>
     paramsGet (serpApiParams k kw options) ''num'' = Some ''120'' \<and>
     rawParamsNum options = ''100''"
  using serpApiParams_num [of options k kw] numToString_100
  by (simp add: rawParamsNum_def)

theorem serpApiParams_default_num_witness:
  "maxResults (optionsFor ''example.com'') = None \<and>
   paramsGet (serpApiParams ''secret'' ''kw'' (optionsFor ''example.com'')) ''num'' = Some ''120'' \<and>
   rawParamsNum (optionsFor ''example.com'') = ''100''"
proof -
  have a: "maxResults (optionsFor ''example.com'') = None" by (simp add: optionsFor_def)
  then have "\<not> truthyNum (maxResults (optionsFor ''example.com''))"
    by (simp add: truthyNum_def)
  from a serpApiParams_default_num [OF this, of "''secret''" "''kw''"]
  show ?thesis by simp
qed

section \<open>Properties of the lookup\<close>


























section \<open>Properties of the daily reset\<close>





end
